theory Spec2Isabelle
  imports Complex_Main "HOL-Library.AList"
begin

section \<open>Byte strings and the library functions the transport uses\<close>

text \<open>
  A Go \<open>string\<close> or \<open>[]byte\<close> is a list of bytes, here \<open>string\<close> (\<open>char list\<close>,
  a \<open>char\<close> being one byte). The standard input is a finite list of bytes that ends
  with end-of-stream; the only read error it can give is \<open>io.EOF\<close>.
\<close>

abbreviation LF :: char where "LF \<equiv> CHR 0x0A"
abbreviation CR :: char where "CR \<equiv> CHR 0x0D"

text \<open>\<open>strings.HasPrefix(s, p)\<close>.\<close>

definition HasPrefix :: "string \<Rightarrow> string \<Rightarrow> bool" where
  "HasPrefix s p \<longleftrightarrow> take (length p) s = p"

text \<open>\<open>strings.HasSuffix(s, p)\<close>, used below to read runes from the right.\<close>

definition HasSuffix :: "string \<Rightarrow> string \<Rightarrow> bool" where
  "HasSuffix s p \<longleftrightarrow> HasPrefix (rev s) (rev p)"

text \<open>
  \<open>strings.TrimSpace\<close> removes leading and trailing white space as Unicode defines it,
  reading the string as UTF-8. The white space code points are the six ASCII ones
  (tab, line feed, vertical tab, form feed, carriage return, space) and
  U+0085, U+00A0, U+1680, U+2000 to U+200A, U+2028, U+2029, U+202F, U+205F, U+3000,
  listed here by their UTF-8 encodings. A byte sequence that is not valid UTF-8
  decodes to U+FFFD, which is not white space.
\<close>

definition asciiSpace :: "char \<Rightarrow> bool" where
  "asciiSpace c \<longleftrightarrow>
     c = CHR 0x09 \<or> c = CHR 0x0A \<or> c = CHR 0x0B \<or> c = CHR 0x0C \<or> c = CHR 0x0D \<or> c = CHR 0x20"

definition spaceRunes :: "string list" where
  "spaceRunes =
     [[CHR 0xC2, CHR 0x85], [CHR 0xC2, CHR 0xA0], [CHR 0xE1, CHR 0x9A, CHR 0x80],
      [CHR 0xE2, CHR 0x80, CHR 0x80], [CHR 0xE2, CHR 0x80, CHR 0x81],
      [CHR 0xE2, CHR 0x80, CHR 0x82], [CHR 0xE2, CHR 0x80, CHR 0x83],
      [CHR 0xE2, CHR 0x80, CHR 0x84], [CHR 0xE2, CHR 0x80, CHR 0x85],
      [CHR 0xE2, CHR 0x80, CHR 0x86], [CHR 0xE2, CHR 0x80, CHR 0x87],
      [CHR 0xE2, CHR 0x80, CHR 0x88], [CHR 0xE2, CHR 0x80, CHR 0x89],
      [CHR 0xE2, CHR 0x80, CHR 0x8A], [CHR 0xE2, CHR 0x80, CHR 0xA8],
      [CHR 0xE2, CHR 0x80, CHR 0xA9], [CHR 0xE2, CHR 0x80, CHR 0xAF],
      [CHR 0xE2, CHR 0x81, CHR 0x9F], [CHR 0xE3, CHR 0x80, CHR 0x80]]"

text \<open>The width in bytes of the white space rune a string starts with, 0 if it starts
  with none; the same for the rune it ends with.\<close>

definition leadingSpace :: "string \<Rightarrow> nat" where
  "leadingSpace s =
     (case s of
        [] \<Rightarrow> 0
      | c # _ \<Rightarrow>
          if asciiSpace c then 1
          else (case find (HasPrefix s) spaceRunes of None \<Rightarrow> 0 | Some w \<Rightarrow> length w))"

definition trailingSpace :: "string \<Rightarrow> nat" where
  "trailingSpace s =
     (case rev s of
        [] \<Rightarrow> 0
      | c # _ \<Rightarrow>
          if asciiSpace c then 1
          else (case find (HasSuffix s) spaceRunes of None \<Rightarrow> 0 | Some w \<Rightarrow> length w))"

lemma leadingSpace_le: "leadingSpace s \<le> length s"
proof (cases s)
  case Nil
  then show ?thesis by (simp add: leadingSpace_def)
next
  case (Cons c cs)
  show ?thesis
  proof (cases "find (HasPrefix s) spaceRunes")
    case None
    with Cons show ?thesis by (simp add: leadingSpace_def)
  next
    case (Some w)
    then have "HasPrefix s w" by (auto simp: find_Some_iff)
    then have "length (take (length w) s) = length w"
      unfolding HasPrefix_def by simp
    then have "length w \<le> length s" by simp
    with Cons Some show ?thesis by (simp add: leadingSpace_def)
  qed
qed

lemma trailingSpace_le: "trailingSpace s \<le> length s"
proof (cases "rev s")
  case Nil
  then show ?thesis by (simp add: trailingSpace_def)
next
  case (Cons c cs)
  then have ne: "1 \<le> length s" by (cases s) auto
  show ?thesis
  proof (cases "find (HasSuffix s) spaceRunes")
    case None
    with Cons ne show ?thesis by (simp add: trailingSpace_def)
  next
    case (Some w)
    then have "HasSuffix s w" by (auto simp: find_Some_iff)
    then have "length (take (length (rev w)) (rev s)) = length (rev w)"
      unfolding HasSuffix_def HasPrefix_def by simp
    then have "length w \<le> length s" by simp
    with Cons Some ne show ?thesis by (simp add: trailingSpace_def)
  qed
qed

function TrimLeftSpace :: "string \<Rightarrow> string" where
  "TrimLeftSpace s = (if leadingSpace s = 0 then s else TrimLeftSpace (drop (leadingSpace s) s))"
  by pat_completeness auto
termination
proof (relation "measure length")
  show "wf (measure length)" by simp
next
  fix s :: string
  assume "leadingSpace s \<noteq> 0"
  moreover have "leadingSpace s \<le> length s" by (rule leadingSpace_le)
  ultimately show "(drop (leadingSpace s) s, s) \<in> measure length" by simp
qed

function TrimRightSpace :: "string \<Rightarrow> string" where
  "TrimRightSpace s =
     (if trailingSpace s = 0 then s
      else TrimRightSpace (take (length s - trailingSpace s) s))"
  by pat_completeness auto
termination
proof (relation "measure length")
  show "wf (measure length)" by simp
next
  fix s :: string
  assume "trailingSpace s \<noteq> 0"
  moreover have "trailingSpace s \<le> length s" by (rule trailingSpace_le)
  ultimately show "(take (length s - trailingSpace s) s, s) \<in> measure length" by simp
qed

declare TrimLeftSpace.simps [simp del] TrimRightSpace.simps [simp del]

definition TrimSpace :: "string \<Rightarrow> string" where
  "TrimSpace s = TrimRightSpace (TrimLeftSpace s)"

text \<open>\<open>strings.TrimRight(s, cutset)\<close> for a cutset of ASCII bytes.\<close>

definition TrimRight :: "string \<Rightarrow> string \<Rightarrow> string" where
  "TrimRight s cutset = rev (dropWhile (\<lambda>c. c \<in> set cutset) (rev s))"

text \<open>
  \<open>strings.SplitN(s, sep, 2)\<close> for a separator of one byte: the whole string when the
  separator does not occur, the parts before and after its first occurrence otherwise.
\<close>

definition SplitN :: "string \<Rightarrow> char \<Rightarrow> string list" where
  "SplitN s sep =
     (if sep \<in> set s
      then [takeWhile (\<lambda>c. c \<noteq> sep) s, tl (dropWhile (\<lambda>c. c \<noteq> sep) s)]
      else [s])"

text \<open>
  \<open>strings.EqualFold(s, t)\<close> compares under Unicode simple case folding. The only code
  points outside ASCII that fold to an ASCII letter are U+017F (to s) and U+212A (to k),
  so for a \<open>t\<close> without the letters k and s, such as \<open>Content-Length\<close>, it is the
  comparison of the two strings with their ASCII letters in lower case.
\<close>

definition asciiLower :: "char \<Rightarrow> char" where
  "asciiLower c =
     (if (65::nat) \<le> of_char c \<and> of_char c \<le> (90::nat)
      then char_of (of_char c + (32::nat)) else c)"

definition EqualFold :: "string \<Rightarrow> string \<Rightarrow> bool" where
  "EqualFold s t \<longleftrightarrow> map asciiLower s = map asciiLower t"

text \<open>
  \<open>strconv.Atoi\<close> on a platform whose \<open>int\<close> has 64 bits: an optional sign, then one
  or more decimal digits, the value within the range of \<open>int\<close>. The two errors are
  \<open>strconv.ErrSyntax\<close> and \<open>strconv.ErrRange\<close>.
\<close>

datatype numError = ErrSyntax | ErrRange

definition isDigit :: "char \<Rightarrow> bool" where
  "isDigit c \<longleftrightarrow> (48::nat) \<le> of_char c \<and> of_char c \<le> (57::nat)"

definition digitVal :: "char \<Rightarrow> nat" where
  "digitVal c = of_char c - 48"

definition decimalVal :: "string \<Rightarrow> nat" where
  "decimalVal ds = foldl (\<lambda>acc c. 10 * acc + digitVal c) 0 ds"

definition Atoi :: "string \<Rightarrow> numError + int" where
  "Atoi s =
     (let (neg, ds) =
            (case s of
               [] \<Rightarrow> (False, s)
             | c # r \<Rightarrow> if c = CHR ''-'' then (True, r)
                        else if c = CHR ''+'' then (False, r) else (False, s));
          v = (if neg then - int (decimalVal ds) else int (decimalVal ds))
      in if ds = [] \<or> \<not> list_all isDigit ds then Inl ErrSyntax
         else if v < - (2 ^ 63) \<or> 2 ^ 63 - 1 < v then Inl ErrRange
         else Inr v)"

text \<open>The verb \<open>%d\<close> of \<open>fmt\<close> on a length, which is never negative.\<close>

fun formatDecimal :: "nat \<Rightarrow> string" where
  "formatDecimal n =
     (if n < 10 then [char_of (48 + n)]
      else formatDecimal (n div 10) @ [char_of (48 + n mod 10)])"

declare formatDecimal.simps [simp del]

section \<open>The frame reader and writer\<close>

text \<open>
  Errors are values. \<open>Wrapped\<close> is an error made by \<open>fmt.Errorf\<close> with the verb \<open>%w\<close>:
  \<open>errors.Is\<close> looks through it. The other errors of the transport are made without
  \<open>%w\<close> and wrap nothing.
\<close>

datatype error =
    EOF
  | ErrUnexpectedEOF
  | EmptyMessage
  | InvalidContentLength string
  | MissingContentLength
  | Wrapped string error
  | LibraryError string

fun errors_Is_EOF :: "error \<Rightarrow> bool" where
  "errors_Is_EOF EOF = True"
| "errors_Is_EOF (Wrapped _ e) = errors_Is_EOF e"
| "errors_Is_EOF _ = False"

text \<open>
  \<open>reader.ReadString('\n')\<close> on the bytes not yet read: the line with its delimiter and
  no error, or, when the input ends first, the bytes that were left and \<open>io.EOF\<close>
  (the flag). The third component is what remains unread.
\<close>

definition ReadString :: "string \<Rightarrow> string \<times> bool \<times> string" where
  "ReadString inp =
     (if LF \<in> set inp
      then (takeWhile (\<lambda>c. c \<noteq> LF) inp @ [LF], False, tl (dropWhile (\<lambda>c. c \<noteq> LF) inp))
      else (inp, True, []))"

text \<open>
  \<open>io.ReadFull(reader, payload)\<close> for a buffer of \<open>n\<close> bytes: the next \<open>n\<close> bytes, or
  \<open>io.EOF\<close> when none could be read, or \<open>io.ErrUnexpectedEOF\<close> when the input ends
  after some but not all of them.
\<close>

definition ReadFull :: "string \<Rightarrow> nat \<Rightarrow> (error + string) \<times> string" where
  "ReadFull inp n =
     (if n \<le> length inp then (Inr (take n inp), drop n inp)
      else if inp = [] then (Inl EOF, [])
      else (Inl ErrUnexpectedEOF, []))"

fun parseContentLength :: "string list \<Rightarrow> error + int" where
  "parseContentLength [] = Inl MissingContentLength"
| "parseContentLength (header # headers) =
     (let parts = SplitN header (CHR '':'') in
      if length parts \<noteq> 2 then parseContentLength headers
      else if \<not> EqualFold (TrimSpace (parts ! 0)) ''Content-Length''
        then parseContentLength headers
      else
        (let rawLen = TrimSpace (parts ! 1) in
         case Atoi rawLen of
           Inl _ \<Rightarrow> Inl (InvalidContentLength rawLen)
         | Inr len \<Rightarrow> if len \<le> 0 then Inl (InvalidContentLength rawLen) else Inr len))"

lemma ReadString_shorter:
  "ReadString inp = (line, False, rest) \<Longrightarrow> length rest < length inp"
proof -
  assume a: "ReadString inp = (line, False, rest)"
  then have mem: "LF \<in> set inp" and r: "rest = tl (dropWhile (\<lambda>c. c \<noteq> LF) inp)"
    by (auto simp: ReadString_def split: if_splits)
  from mem have "dropWhile (\<lambda>c. c \<noteq> LF) inp \<noteq> []" by simp
  then have "length (tl (dropWhile (\<lambda>c. c \<noteq> LF) inp)) < length (dropWhile (\<lambda>c. c \<noteq> LF) inp)"
    by (cases "dropWhile (\<lambda>c. c \<noteq> LF) inp") auto
  also have "\<dots> \<le> length inp" by (rule length_dropWhile_le)
  finally show ?thesis using r by simp
qed

text \<open>The loop of \<open>readMessage\<close> that collects the header lines up to the empty line.\<close>

function readHeaders :: "string list \<Rightarrow> string \<Rightarrow> (error + string list) \<times> string" where
  "readHeaders headers inp =
     (case ReadString inp of
        (line, eof, rest) \<Rightarrow>
          if eof then (Inl EOF, rest)
          else
            (let clean = TrimRight line [CR, LF] in
             if clean = [] then (Inr headers, rest)
             else readHeaders (headers @ [clean]) rest))"
  by pat_completeness auto
termination
proof (relation "measure (\<lambda>(headers, inp). length inp)")
  show "wf (measure (\<lambda>(headers, inp). length inp))" by simp
next
  fix headers :: "string list" and inp x :: string and line :: string
    and y :: "bool \<times> string" and eof :: bool and rest clean :: string
  assume "(line, y) = ReadString inp" "(eof, rest) = y" "\<not> eof"
  then have "ReadString inp = (line, False, rest)" by simp
  then have "length rest < length inp" by (rule ReadString_shorter)
  then show "((headers @ [clean], rest), (headers, inp)) \<in> measure (\<lambda>(headers, inp). length inp)"
    by simp
qed

declare readHeaders.simps [simp del]

definition readMessage :: "string \<Rightarrow> (error + string) \<times> string" where
  "readMessage inp =
     (case ReadString inp of
        (firstLine, eof, rest) \<Rightarrow>
          if eof then
            (let trimmed = TrimSpace firstLine in
             if trimmed = [] then (Inl EOF, rest)
             else if HasPrefix trimmed ''{'' then (Inr trimmed, rest)
             else (Inl EOF, rest))
          else
            (let trimmed = TrimSpace firstLine in
             if trimmed = [] then (Inl EmptyMessage, rest)
             else if HasPrefix trimmed ''{'' then (Inr trimmed, rest)
             else
               (case readHeaders [TrimRight firstLine [CR, LF]] rest of
                  (Inl e, rest') \<Rightarrow> (Inl e, rest')
                | (Inr headers, rest') \<Rightarrow>
                    (case parseContentLength headers of
                       Inl e \<Rightarrow> (Inl e, rest')
                     | Inr len \<Rightarrow>
                         (case ReadFull rest' (nat len) of
                            (Inl e, rest'') \<Rightarrow> (Inl (Wrapped ''failed to read payload'' e), rest'')
                          | (Inr payload, rest'') \<Rightarrow> (Inr payload, rest''))))))"

section \<open>Messages\<close>

text \<open>
  A value of type \<open>interface{}\<close> that \<open>encoding/json\<close> decoded, or one the server
  built to be encoded, is represented by the JSON value it stands for; the nil interface
  is \<open>JNull\<close>. A \<open>map[string]interface{}\<close> is an association list read with
  \<open>map_of\<close> and written with \<open>AList.update\<close>. A \<open>json.RawMessage\<close> is the bytes of
  the member as they stood in the message, empty when the member was absent.
\<close>

datatype jvalue =
    JNull
  | JBool bool
  | JNumber real
  | JString string
  | JArray "jvalue list"
  | JObject "(string \<times> jvalue) list"

record jsonRPCRequest =
  JSONRPC :: string
  ID :: string
  Method :: string
  Params :: string

record jsonRPCError =
  Code :: int
  Message :: string
  Data :: jvalue

record jsonRPCResponse =
  JSONRPC :: string
  ID :: jvalue
  Result :: jvalue
  Error :: "jsonRPCError option"

record toolsCallParams =
  Name :: string
  Arguments :: "(string \<times> jvalue) list"

text \<open>
  The functions of \<open>encoding/json\<close> the server calls, as parameters: what
  \<open>json.Unmarshal\<close> gives for a payload decoded into a \<open>jsonRPCRequest\<close>, into a
  \<open>toolsCallParams\<close> and into an \<open>interface{}\<close>, and the text \<open>json.Marshal\<close> and
  \<open>json.MarshalIndent\<close> give for a JSON value. \<open>Inl\<close> carries the text of the error.
\<close>

record jsonLibrary =
  UnmarshalRequest :: "string \<Rightarrow> string + jsonRPCRequest"
  UnmarshalParams :: "string \<Rightarrow> string + toolsCallParams"
  UnmarshalValue :: "string \<Rightarrow> string + jvalue"
  Marshal :: "jvalue \<Rightarrow> string + string"
  MarshalIndent :: "jvalue \<Rightarrow> string + string"

text \<open>
  What \<open>json.Marshal\<close> writes for the two structs, by their field tags: a member for
  every field, except that a field tagged \<open>omitempty\<close> is left out when it is a nil
  interface or a nil pointer.
\<close>

definition errorObject :: "jsonRPCError \<Rightarrow> jvalue" where
  "errorObject e =
     JObject ([(''code'', JNumber (of_int (Code e))), (''message'', JString (Message e))]
              @ (if Data e = JNull then [] else [(''data'', Data e)]))"

definition responseObject :: "jsonRPCResponse \<Rightarrow> jvalue" where
  "responseObject r =
     JObject ([(''jsonrpc'', JString (JSONRPC r))]
              @ (if ID r = JNull then [] else [(''id'', ID r)])
              @ (if Result r = JNull then [] else [(''result'', Result r)])
              @ (case Error r of None \<Rightarrow> [] | Some e \<Rightarrow> [(''error'', errorObject e)]))"

definition writeMessage :: "jsonLibrary \<Rightarrow> jsonRPCResponse \<Rightarrow> error + string" where
  "writeMessage lib response =
     (case Marshal lib (responseObject response) of
        Inl err \<Rightarrow> Inl (LibraryError err)
      | Inr payload \<Rightarrow>
          Inr (''Content-Length: '' @ formatDecimal (length payload) @ [CR, LF, CR, LF] @ payload))"

section \<open>The Remote Operation Executor\<close>

text \<open>
  \<open>kaizenAPIClient.call\<close> is a parameter: given the verb, the path and the payload
  (\<open>None\<close> for nil) it answers from the state of the remote service with an error text
  or the decoded object, and leaves the service in a new state. The server's side of it
  is that state together with the journal of the calls made so far.
\<close>

datatype execCall = ExecCall string string "(string \<times> jvalue) list option"

type_synonym 'w executor = "execCall \<Rightarrow> 'w \<Rightarrow> (string + jvalue) \<times> 'w"

type_synonym 'w backend = "'w \<times> execCall list"

definition call ::
  "'w executor \<Rightarrow> string \<Rightarrow> string \<Rightarrow> (string \<times> jvalue) list option \<Rightarrow> 'w backend
     \<Rightarrow> (string + jvalue) \<times> 'w backend" where
  "call ex method path payload b =
     (case b of
        (w, journal) \<Rightarrow>
          (case ex (ExecCall method path payload) w of
             (r, w') \<Rightarrow> (r, (w', journal @ [ExecCall method path payload]))))"

section \<open>The tool handlers\<close>

text \<open>\<open>v, _ := args[k].(string)\<close>: the string under the key, the empty string when the
  key is absent or holds a value of another type.\<close>

definition stringArg :: "(string \<times> jvalue) list \<Rightarrow> string \<Rightarrow> string" where
  "stringArg args k = (case map_of args k of Some (JString v) \<Rightarrow> v | _ \<Rightarrow> [])"

text \<open>\<open>if v, ok := args[k]; ok { payload[k] = v }\<close>.\<close>

definition copyArg ::
  "(string \<times> jvalue) list \<Rightarrow> string \<Rightarrow> (string \<times> jvalue) list \<Rightarrow> (string \<times> jvalue) list" where
  "copyArg args k payload =
     (case map_of args k of None \<Rightarrow> payload | Some v \<Rightarrow> AList.update k v payload)"

definition callAkumaQuery ::
  "'w executor \<Rightarrow> (string \<times> jvalue) list \<Rightarrow> 'w backend \<Rightarrow> (string + jvalue) \<times> 'w backend" where
  "callAkumaQuery ex args b =
     (let dialect = stringArg args ''dialect'';
          prompt = stringArg args ''prompt''
      in if TrimSpace dialect = [] then (Inl ''dialect is required'', b)
         else if TrimSpace prompt = [] then (Inl ''prompt is required'', b)
         else
           (let payload = [(''dialect'', JString dialect), (''prompt'', JString prompt)];
                payload = copyArg args ''mode'' payload;
                payload = copyArg args ''maxRows'' payload;
                payload = copyArg args ''guardrails'' payload
            in call ex ''POST'' ''/v1/akuma/query'' (Some payload) b))"

definition callAkumaExplain ::
  "'w executor \<Rightarrow> (string \<times> jvalue) list \<Rightarrow> 'w backend \<Rightarrow> (string + jvalue) \<times> 'w backend" where
  "callAkumaExplain ex args b =
     (let sql = stringArg args ''sql''
      in if TrimSpace sql = [] then (Inl ''sql is required'', b)
         else call ex ''POST'' ''/v1/akuma/explain'' (Some [(''sql'', JString sql)]) b)"

definition callAkumaSchema ::
  "'w executor \<Rightarrow> (string \<times> jvalue) list \<Rightarrow> 'w backend \<Rightarrow> (string + jvalue) \<times> 'w backend" where
  "callAkumaSchema ex args b =
     (case map_of args ''tables'' of
        None \<Rightarrow> (Inl ''tables is required'', b)
      | Some tables \<Rightarrow>
          (let payload = [(''tables'', tables)];
               payload = copyArg args ''version'' payload
           in call ex ''POST'' ''/v1/akuma/schema'' (Some payload) b))"

definition callEnzanSummary ::
  "'w executor \<Rightarrow> (string \<times> jvalue) list \<Rightarrow> 'w backend \<Rightarrow> (string + jvalue) \<times> 'w backend" where
  "callEnzanSummary ex args b =
     (let payload = [(''window'', JString ''24h'')];
          payload = copyArg args ''window'' payload;
          payload = copyArg args ''groupBy'' payload
      in call ex ''POST'' ''/v1/enzan/summary'' (Some payload) b)"

definition callSozoGenerate ::
  "'w executor \<Rightarrow> (string \<times> jvalue) list \<Rightarrow> 'w backend \<Rightarrow> (string + jvalue) \<times> 'w backend" where
  "callSozoGenerate ex args b =
     (case map_of args ''records'' of
        None \<Rightarrow> (Inl ''records is required'', b)
      | Some records \<Rightarrow>
          if map_of args ''schema'' = None \<and> map_of args ''schemaName'' = None
          then (Inl ''schema or schemaName is required'', b)
          else
            (let payload = [(''records'', records)];
                 payload = foldl (\<lambda>payload key. copyArg args key payload) payload
                             [''schema'', ''schemaName'', ''correlations'', ''seed'']
             in call ex ''POST'' ''/v1/sozo/generate'' (Some payload) b))"

text \<open>The two results \<open>handleToolCall\<close> builds: the failure marker with the text of
  the error, and the payload of the executor with its indented rendering (the empty
  text when \<open>json.MarshalIndent\<close> fails, its error being dropped).\<close>

definition toolFailure :: "string \<Rightarrow> jvalue" where
  "toolFailure msg =
     JObject [(''content'', JArray [JObject [(''type'', JString ''text''), (''text'', JString msg)]]),
              (''isError'', JBool True)]"

definition toolSuccess :: "jsonLibrary \<Rightarrow> jvalue \<Rightarrow> jvalue" where
  "toolSuccess lib data =
     (let pretty = (case MarshalIndent lib data of Inl _ \<Rightarrow> [] | Inr text \<Rightarrow> text)
      in JObject [(''content'', JArray [JObject [(''type'', JString ''text''), (''text'', JString pretty)]]),
                  (''structuredContent'', data)])"

text \<open>The \<open>switch\<close> on the tool name: the handler's outcome, or \<open>None\<close> in the
  \<open>default\<close> case.\<close>

definition selectTool ::
  "'w executor \<Rightarrow> toolsCallParams \<Rightarrow> 'w backend \<Rightarrow> ((string + jvalue) \<times> 'w backend) option" where
  "selectTool ex params b =
     (if Name params = ''akuma.query'' then Some (callAkumaQuery ex (Arguments params) b)
      else if Name params = ''akuma.explain'' then Some (callAkumaExplain ex (Arguments params) b)
      else if Name params = ''akuma.schema'' then Some (callAkumaSchema ex (Arguments params) b)
      else if Name params = ''enzan.summary'' then Some (callEnzanSummary ex (Arguments params) b)
      else if Name params = ''enzan.burn'' then Some (call ex ''GET'' ''/v1/enzan/burn'' None b)
      else if Name params = ''sozo.generate'' then Some (callSozoGenerate ex (Arguments params) b)
      else if Name params = ''sozo.schemas'' then Some (call ex ''GET'' ''/v1/sozo/schemas'' None b)
      else None)"

definition handleToolCall ::
  "jsonLibrary \<Rightarrow> 'w executor \<Rightarrow> string \<Rightarrow> 'w backend
     \<Rightarrow> (jvalue \<times> jsonRPCError option) \<times> 'w backend" where
  "handleToolCall lib ex raw b =
     (case UnmarshalParams lib raw of
        Inl err \<Rightarrow>
          ((JNull, Some \<lparr>Code = - 32602, Message = ''invalid tool call params'', Data = JString err\<rparr>), b)
      | Inr params \<Rightarrow>
          (case selectTool ex params b of
             None \<Rightarrow>
               ((JNull, Some \<lparr>Code = - 32602, Message = ''unknown tool'', Data = JString (Name params)\<rparr>), b)
           | Some (Inl err, b') \<Rightarrow> ((toolFailure err, None), b')
           | Some (Inr data, b') \<Rightarrow> ((toolSuccess lib data, None), b')))"

section \<open>The serve loop\<close>

text \<open>The constants \<open>protocol\<close>, \<open>serverName\<close> and \<open>serverVersion\<close> and the catalogue
  that \<open>toolDefinitions\<close> returns are parameters.\<close>

record serverInfo =
  protocol :: string
  serverName :: string
  serverVersion :: string
  toolDefinitions :: jvalue

text \<open>The \<open>switch\<close> on the method: the result and the RPC error.\<close>

definition dispatch ::
  "jsonLibrary \<Rightarrow> serverInfo \<Rightarrow> 'w executor \<Rightarrow> jsonRPCRequest \<Rightarrow> 'w backend
     \<Rightarrow> (jvalue \<times> jsonRPCError option) \<times> 'w backend" where
  "dispatch lib info ex req b =
     (if Method req = ''initialize'' then
        ((JObject [(''protocolVersion'', JString (protocol info)),
                   (''capabilities'', JObject [(''tools'', JObject [])]),
                   (''serverInfo'', JObject [(''name'', JString (serverName info)),
                                            (''version'', JString (serverVersion info))])],
          None), b)
      else if Method req = ''ping'' then ((JObject [], None), b)
      else if Method req = ''tools/list'' then
        ((JObject [(''tools'', toolDefinitions info)], None), b)
      else if Method req = ''tools/call'' then handleToolCall lib ex (Params req) b
      else ((JNull, Some \<lparr>Code = - 32601, Message = ''method not found'',
                           Data = JString (Method req)\<rparr>), b))"

text \<open>
  The body of the loop from the decoded request to the response handed to
  \<open>writeMessage\<close>: \<open>None\<close> where the loop continues without writing.
\<close>

definition handleRequest ::
  "jsonLibrary \<Rightarrow> serverInfo \<Rightarrow> 'w executor \<Rightarrow> jsonRPCRequest \<Rightarrow> 'w backend
     \<Rightarrow> jsonRPCResponse option \<times> 'w backend" where
  "handleRequest lib info ex req b =
     (if Method req = ''notifications/initialized'' \<or> Method req = ''initialized'' then (None, b)
      else
        (case dispatch lib info ex req b of
           ((result, rpcErr), b') \<Rightarrow>
             if length (jsonRPCRequest.ID req) = 0 then (None, b')
             else
               (let id = (case UnmarshalValue lib (jsonRPCRequest.ID req) of
                            Inl _ \<Rightarrow> JString (jsonRPCRequest.ID req)
                          | Inr v \<Rightarrow> v)
                in (Some \<lparr>JSONRPC = ''2.0'', ID = id, Result = result, Error = rpcErr\<rparr>, b'))))"

text \<open>
  One turn of the loop on the bytes not yet read: the loop returns (\<open>Stop\<close>, with the
  error or nil), or goes on (\<open>Continue\<close>) having written some bytes to the output.
\<close>

datatype 'w turn =
    Stop "error option" "'w backend"
  | Continue string string "'w backend"

definition serveTurn ::
  "jsonLibrary \<Rightarrow> serverInfo \<Rightarrow> 'w executor \<Rightarrow> 'w backend \<Rightarrow> string \<Rightarrow> 'w turn" where
  "serveTurn lib info ex b inp =
     (case readMessage inp of
        (Inl err, rest) \<Rightarrow>
          if errors_Is_EOF err then Stop None b
          else Stop (Some (Wrapped ''failed to read message'' err)) b
      | (Inr payload, rest) \<Rightarrow>
          (case UnmarshalRequest lib payload of
             Inl _ \<Rightarrow> Continue [] rest b
           | Inr req \<Rightarrow>
               (case handleRequest lib info ex req b of
                  (None, b') \<Rightarrow> Continue [] rest b'
                | (Some resp, b') \<Rightarrow>
                    (case writeMessage lib resp of
                       Inl err \<Rightarrow> Stop (Some (Wrapped ''failed to write response'' err)) b'
                     | Inr out \<Rightarrow> Continue out rest b'))))"

lemma TrimSpace_Nil: "TrimSpace [] = []"
  by (simp add: TrimSpace_def TrimLeftSpace.simps TrimRightSpace.simps leadingSpace_def trailingSpace_def)

lemma readHeaders_step:
  "ReadString inp = (line, eof, rest0) \<Longrightarrow>
   readHeaders hs inp =
     (if eof then (Inl EOF, rest0)
      else if TrimRight line [CR, LF] = [] then (Inr hs, rest0)
      else readHeaders (hs @ [TrimRight line [CR, LF]]) rest0)"
  by (subst readHeaders.simps) (simp add: Let_def)

lemma readHeaders_le: "readHeaders hs inp = (r, rest) \<Longrightarrow> length rest \<le> length inp"
proof (induction hs inp arbitrary: r rest rule: readHeaders.induct)
  case (1 headers inp)
  obtain line eof rest0 where rs: "ReadString inp = (line, eof, rest0)"
    by (cases "ReadString inp") auto
  show ?case
  proof (cases eof)
    case True
    with rs have "rest0 = []" by (auto simp: ReadString_def split: if_splits)
    with 1(2) rs True show ?thesis by (simp add: readHeaders_step[OF rs])
  next
    case False
    with rs have sh: "length rest0 < length inp" by (auto dest: ReadString_shorter)
    show ?thesis
    proof (cases "TrimRight line [CR, LF] = []")
      case True
      with 1(2) rs False sh show ?thesis by (simp add: readHeaders_step[OF rs])
    next
      case ne: False
      from 1(2) rs False ne have "readHeaders (headers @ [TrimRight line [CR, LF]]) rest0 = (r, rest)"
        by (simp add: readHeaders_step[OF rs])
      from 1(1)[OF rs[symmetric] refl False refl ne this] sh show ?thesis by simp
    qed
  qed
qed

lemma ReadFull_le: "ReadFull inp n = (r, rest) \<Longrightarrow> length rest \<le> length inp"
  by (auto simp: ReadFull_def split: if_splits)

lemma readMessage_shorter:
  assumes "readMessage inp = (Inr p, rest)"
  shows "length rest < length inp"
proof -
  obtain line eof rest0 where rs: "ReadString inp = (line, eof, rest0)"
    by (cases "ReadString inp") auto
  show ?thesis
  proof (cases eof)
    case True
    with rs have l: "line = inp" and r0: "rest0 = []" by (auto simp: ReadString_def split: if_splits)
    from assms rs True have "TrimSpace line \<noteq> []" and "rest = rest0"
      by (auto simp: readMessage_def Let_def split: if_splits)
    with l r0 TrimSpace_Nil show ?thesis by (cases inp) auto
  next
    case False
    with rs have sh: "length rest0 < length inp" by (auto dest: ReadString_shorter)
    show ?thesis
    proof (cases "TrimSpace line \<noteq> [] \<and> \<not> HasPrefix (TrimSpace line) ''{''")
      case False
      with assms rs \<open>\<not> eof\<close> have "rest = rest0"
        by (auto simp: readMessage_def Let_def split: if_splits)
      with sh show ?thesis by simp
    next
      case True
      obtain hr rest1 where rh: "readHeaders [TrimRight line [CR, LF]] rest0 = (hr, rest1)"
        by (cases "readHeaders [TrimRight line [CR, LF]] rest0") auto
      then have le1: "length rest1 \<le> length rest0" by (rule readHeaders_le)
      from assms rs \<open>\<not> eof\<close> True rh obtain hs n pr where
        "hr = Inr hs" and rf: "ReadFull rest1 n = (pr, rest)"
        by (auto simp: readMessage_def Let_def split: if_splits sum.splits prod.splits)
      from rf have "length rest \<le> length rest1" by (rule ReadFull_le)
      with le1 sh show ?thesis by simp
    qed
  qed
qed

lemma serveTurn_shorter:
  "serveTurn lib info ex b inp = Continue out rest b' \<Longrightarrow> length rest < length inp"
  by (auto simp: serveTurn_def split: prod.splits sum.splits if_splits option.splits
           dest: readMessage_shorter)

text \<open>
  The loop itself: the error \<open>Serve\<close> returns (\<open>None\<close> for nil), all the bytes written
  to the output, and the backend when it returns. Every turn that goes on has read at
  least one byte, so the loop ends on every input.
\<close>

function Serve ::
  "jsonLibrary \<Rightarrow> serverInfo \<Rightarrow> 'w executor \<Rightarrow> 'w backend \<Rightarrow> string
     \<Rightarrow> error option \<times> string \<times> 'w backend" where
  "Serve lib info ex b inp =
     (case serveTurn lib info ex b inp of
        Stop err b' \<Rightarrow> (err, [], b')
      | Continue out rest b' \<Rightarrow>
          (case Serve lib info ex b' rest of
             (err, out', b'') \<Rightarrow> (err, out @ out', b'')))"
  by pat_completeness auto
termination
proof (relation "measure (\<lambda>(lib, info, ex, b, inp). length inp)")
  show "wf (measure (\<lambda>(lib, info, ex, b, inp). length inp))" by simp
next
  fix lib info and ex :: "'w executor" and b :: "'w backend" and inp out rest b'
  assume "serveTurn lib info ex b inp = Continue out rest b'"
  then have "length rest < length inp" by (rule serveTurn_shorter)
  then show "((lib, info, ex, b', rest), (lib, info, ex, b, inp))
               \<in> measure (\<lambda>(lib, info, ex, b, inp). length inp)"
    by simp
qed

section \<open>Vocabulary of the properties\<close>

text \<open>The members of a JSON object, and whether it has a member of a given name.\<close>

fun members :: "jvalue \<Rightarrow> (string \<times> jvalue) list" where
  "members (JObject ms) = ms"
| "members _ = []"

definition hasMember :: "jvalue \<Rightarrow> string \<Rightarrow> bool" where
  "hasMember v k \<longleftrightarrow> map_of (members v) k \<noteq> None"


text \<open>The seven names the \<open>switch\<close> of \<open>handleToolCall\<close> has a case for.\<close>

definition registeredTools :: "string list" where
  "registeredTools =
     [''akuma.query'', ''akuma.explain'', ''akuma.schema'', ''enzan.summary'', ''enzan.burn'',
      ''sozo.generate'', ''sozo.schemas'']"

text \<open>A call that names a registered tool and lacks one of its required arguments.\<close>

definition missingRequired :: "toolsCallParams \<Rightarrow> bool" where
  "missingRequired params \<longleftrightarrow>
     (Name params = ''akuma.query'' \<and>
        (map_of (Arguments params) ''prompt'' = None \<or> map_of (Arguments params) ''dialect'' = None))
     \<or> (Name params = ''akuma.explain'' \<and> map_of (Arguments params) ''sql'' = None)
     \<or> (Name params = ''akuma.schema'' \<and> map_of (Arguments params) ''tables'' = None)
     \<or> (Name params = ''sozo.generate'' \<and>
          (map_of (Arguments params) ''records'' = None
           \<or> (map_of (Arguments params) ''schema'' = None
               \<and> map_of (Arguments params) ''schemaName'' = None)))"

section \<open>A sample session\<close>

text \<open>
  Messages of a short session and what \<open>encoding/json\<close> does on them, as a library
  that knows these texts only; an executor without an API key, whose every call fails
  before any request is sent; and the constants of the server.
\<close>

definition notifyLine :: string where
  \<open>notifyLine = ''{"jsonrpc":"2.0","method":"nope"}''\<close>

definition pingLine :: string where
  \<open>pingLine = ''{"jsonrpc":"2.0","id":1,"method":"ping"}''\<close>

definition pingReply :: string where
  \<open>pingReply = ''{"jsonrpc":"2.0","id":1,"result":{}}''\<close>

definition pingFrame :: string where
  "pingFrame = ''Content-Length: 36'' @ [CR, LF, CR, LF] @ pingReply"

definition nullIdLine :: string where
  \<open>nullIdLine = ''{"jsonrpc":"2.0","id":null,"method":"ping"}''\<close>

definition nullIdReply :: string where
  \<open>nullIdReply = ''{"jsonrpc":"2.0","result":{}}''\<close>

definition nullIdInitialized :: string where
  \<open>nullIdInitialized = ''{"jsonrpc":"2.0","id":null,"method":"initialized"}''\<close>

definition unknownToolParams :: string where
  \<open>unknownToolParams = ''{"name":"nope.tool","arguments":{}}''\<close>

definition queryParams :: string where
  \<open>queryParams = ''{"name":"akuma.query","arguments":{"dialect":"postgres"}}''\<close>

definition exampleLibrary :: jsonLibrary where
  "exampleLibrary =
     \<lparr>UnmarshalRequest = (\<lambda>s.
         if s = notifyLine then
           Inr \<lparr>jsonRPCRequest.JSONRPC = ''2.0'', jsonRPCRequest.ID = [], Method = ''nope'', Params = []\<rparr>
         else if s = pingLine then
           Inr \<lparr>jsonRPCRequest.JSONRPC = ''2.0'', jsonRPCRequest.ID = ''1'', Method = ''ping'', Params = []\<rparr>
         else if s = nullIdLine then
           Inr \<lparr>jsonRPCRequest.JSONRPC = ''2.0'', jsonRPCRequest.ID = ''null'', Method = ''ping'', Params = []\<rparr>
         else if s = nullIdInitialized then
           Inr \<lparr>jsonRPCRequest.JSONRPC = ''2.0'', jsonRPCRequest.ID = ''null'', Method = ''initialized'',
                Params = []\<rparr>
         else Inl ''unexpected end of JSON input''),
       UnmarshalParams = (\<lambda>s.
         if s = unknownToolParams then Inr \<lparr>Name = ''nope.tool'', Arguments = []\<rparr>
         else if s = queryParams then
           Inr \<lparr>Name = ''akuma.query'', Arguments = [(''dialect'', JString ''postgres'')]\<rparr>
         else Inl ''unexpected end of JSON input''),
       UnmarshalValue = (\<lambda>s.
         if s = ''1'' then Inr (JNumber 1)
         else if s = ''null'' then Inr JNull
         else if s = pingReply then
           Inr (JObject [(''jsonrpc'', JString ''2.0''), (''id'', JNumber 1), (''result'', JObject [])])
         else Inl ''unexpected end of JSON input''),
       Marshal = (\<lambda>v.
         if v = JObject [(''jsonrpc'', JString ''2.0''), (''id'', JNumber 1), (''result'', JObject [])]
         then Inr pingReply
         else if v = JObject [(''jsonrpc'', JString ''2.0''), (''result'', JObject [])]
         then Inr nullIdReply
         else Inl ''json: unsupported value''),
       MarshalIndent = (\<lambda>v. Inl ''json: unsupported value'')\<rparr>"

definition exampleInfo :: serverInfo where
  "exampleInfo =
     \<lparr>protocol = ''2024-11-05'', serverName = ''kaizen-mcp'', serverVersion = ''1.0.0'',
      toolDefinitions = JArray []\<rparr>"

definition exampleExecutor :: "unit executor" where
  "exampleExecutor c w = (Inl ''KAIZEN_API_KEY is not set'', w)"




section \<open>Properties of the dispatch\<close>

lemma toolFailure_not_null: "toolFailure msg \<noteq> JNull"
  by (simp add: toolFailure_def)

lemma toolSuccess_not_null: "toolSuccess lib data \<noteq> JNull"
  by (simp add: toolSuccess_def Let_def)

lemma handleToolCall_one:
  "handleToolCall lib ex raw b = ((result, rpcErr), b') \<Longrightarrow> (result \<noteq> JNull) \<noteq> (rpcErr \<noteq> None)"
  by (auto simp: handleToolCall_def toolFailure_not_null toolSuccess_not_null
           split: sum.splits option.splits prod.splits)

lemma dispatch_one:
  "dispatch lib info ex req b = ((result, rpcErr), b') \<Longrightarrow> (result \<noteq> JNull) \<noteq> (rpcErr \<noteq> None)"
  by (auto simp: dispatch_def split: if_splits dest: handleToolCall_one)

lemma handleRequest_None:
  "jsonRPCRequest.ID req = [] \<Longrightarrow> fst (handleRequest lib info ex req b) = None"
  by (simp add: handleRequest_def split: prod.splits)

lemma handleRequest_Some:
  assumes "handleRequest lib info ex req b = (Some resp, b')"
  shows "jsonRPCRequest.ID req \<noteq> [] \<and> (Result resp \<noteq> JNull) \<noteq> (Error resp \<noteq> None)"
proof -
  obtain result rpcErr b0 where d: "dispatch lib info ex req b = ((result, rpcErr), b0)"
    by (cases "dispatch lib info ex req b") auto
  from assms d have "jsonRPCRequest.ID req \<noteq> []" and "Result resp = result" and "Error resp = rpcErr"
    by (auto simp: handleRequest_def Let_def split: if_splits)
  with dispatch_one[OF d] show ?thesis by simp
qed

lemma responseObject_members:
  "hasMember (responseObject r) ''result'' = (Result r \<noteq> JNull)"
  "hasMember (responseObject r) ''error'' = (Error r \<noteq> None)"
  "hasMember (responseObject r) ''id'' = (ID r \<noteq> JNull)"
  by (cases "Error r"; simp add: hasMember_def responseObject_def)+


lemma Serve_Continue:
  "serveTurn lib info ex b inp = Continue out rest b' \<Longrightarrow>
   Serve lib info ex b inp =
     (case Serve lib info ex b' rest of (err, out', b'') \<Rightarrow> (err, out @ out', b''))"
  by (subst Serve.simps) simp

lemma Serve_Stop:
  "serveTurn lib info ex b inp = Stop err b' \<Longrightarrow> Serve lib info ex b inp = (err, [], b')"
  by (subst Serve.simps) simp

lemma stringArg_absent: "map_of args k = None \<Longrightarrow> stringArg args k = []"
  by (simp add: stringArg_def)



lemma callAkumaQuery_dialect:
  "stringArg args ''dialect'' = [] \<Longrightarrow> callAkumaQuery ex args b = (Inl ''dialect is required'', b)"
  by (simp add: callAkumaQuery_def TrimSpace_Nil)

lemma callAkumaQuery_prompt:
  "stringArg args ''prompt'' = [] \<Longrightarrow>
   callAkumaQuery ex args b =
     (if TrimSpace (stringArg args ''dialect'') = [] then (Inl ''dialect is required'', b)
      else (Inl ''prompt is required'', b))"
  by (simp add: callAkumaQuery_def TrimSpace_Nil)

lemma callAkumaExplain_sql:
  "stringArg args ''sql'' = [] \<Longrightarrow> callAkumaExplain ex args b = (Inl ''sql is required'', b)"
  by (simp add: callAkumaExplain_def TrimSpace_Nil)

lemma callAkumaSchema_tables:
  "map_of args ''tables'' = None \<Longrightarrow> callAkumaSchema ex args b = (Inl ''tables is required'', b)"
  by (simp add: callAkumaSchema_def)

lemma callSozoGenerate_records:
  "map_of args ''records'' = None \<Longrightarrow> callSozoGenerate ex args b = (Inl ''records is required'', b)"
  by (simp add: callSozoGenerate_def)

lemma callSozoGenerate_schema:
  "map_of args ''schema'' = None \<Longrightarrow> map_of args ''schemaName'' = None \<Longrightarrow>
   callSozoGenerate ex args b =
     (if map_of args ''records'' = None then (Inl ''records is required'', b)
      else (Inl ''schema or schemaName is required'', b))"
  by (simp add: callSozoGenerate_def split: option.splits)

lemma selectTool_cases:
  "Name params = ''akuma.query'' \<Longrightarrow>
     selectTool ex params b = Some (callAkumaQuery ex (Arguments params) b)"
  "Name params = ''akuma.explain'' \<Longrightarrow>
     selectTool ex params b = Some (callAkumaExplain ex (Arguments params) b)"
  "Name params = ''akuma.schema'' \<Longrightarrow>
     selectTool ex params b = Some (callAkumaSchema ex (Arguments params) b)"
  "Name params = ''sozo.generate'' \<Longrightarrow>
     selectTool ex params b = Some (callSozoGenerate ex (Arguments params) b)"
  by (simp_all add: selectTool_def)

lemma missingRequired_selectTool:
  assumes "missingRequired params"
  shows "\<exists>msg. msg \<noteq> [] \<and> selectTool ex params b = Some (Inl msg, b)"
proof -
  let ?args = "Arguments params"
  show ?thesis
    using assms unfolding missingRequired_def
  proof (elim disjE conjE)
    assume q1: "Name params = ''akuma.query''" "map_of ?args ''prompt'' = None"
    from q1(2) have "stringArg ?args ''prompt'' = []" by (rule stringArg_absent)
    then show ?thesis
      by (simp add: selectTool_cases(1)[OF q1(1)] callAkumaQuery_prompt)
  next
    assume q2: "Name params = ''akuma.query''" "map_of ?args ''dialect'' = None"
    from q2(2) have "stringArg ?args ''dialect'' = []" by (rule stringArg_absent)
    then show ?thesis
      by (simp add: selectTool_cases(1)[OF q2(1)] callAkumaQuery_dialect)
  next
    assume e: "Name params = ''akuma.explain''" "map_of ?args ''sql'' = None"
    from e(2) have "stringArg ?args ''sql'' = []" by (rule stringArg_absent)
    then show ?thesis
      by (simp add: selectTool_cases(2)[OF e(1)] callAkumaExplain_sql)
  next
    assume s: "Name params = ''akuma.schema''" "map_of ?args ''tables'' = None"
    then show ?thesis
      by (simp add: selectTool_cases(3)[OF s(1)] callAkumaSchema_tables)
  next
    assume g1: "Name params = ''sozo.generate''" "map_of ?args ''records'' = None"
    then show ?thesis
      by (simp add: selectTool_cases(4)[OF g1(1)] callSozoGenerate_records)
  next
    assume g2: "Name params = ''sozo.generate''" "map_of ?args ''schema'' = None" "map_of ?args ''schemaName'' = None"
    then show ?thesis
      by (simp add: selectTool_cases(4)[OF g2(1)] callSozoGenerate_schema)
  qed
qed

text \<open>
  C1. When the request decoded from a frame has no \<open>id\<close> member (its raw identifier is
  empty), the turn of the serve loop that handles it writes no byte and the loop goes on
  with the next frame, whatever the method is and whatever the dispatch returned.
\<close>

theorem idless_request_writes_nothing:
  assumes "readMessage inp = (Inr payload, rest)"
    and "UnmarshalRequest lib payload = Inr req"
    and "jsonRPCRequest.ID req = []"
  shows "\<exists>b'. serveTurn lib info ex b inp = Continue [] rest b'
            \<and> Serve lib info ex b inp = Serve lib info ex b' rest"
proof -
  obtain r b' where h: "handleRequest lib info ex req b = (r, b')"
    by (cases "handleRequest lib info ex req b") auto
  with handleRequest_None[OF assms(3), of lib info ex b] have "r = None" by simp
  with h assms(1,2) have t: "serveTurn lib info ex b inp = Continue [] rest b'"
    by (simp add: serveTurn_def)
  from Serve_Continue[OF t] have "Serve lib info ex b inp = Serve lib info ex b' rest"
    by (simp split: prod.splits)
  with t show ?thesis by blast
qed

theorem idless_request_writes_nothing_witness:
  "readMessage (notifyLine @ [LF]) = (Inr notifyLine, [])
   \<and> (\<exists>req. UnmarshalRequest exampleLibrary notifyLine = Inr req \<and> jsonRPCRequest.ID req = []
         \<and> Method req = ''nope'')
   \<and> (\<exists>b'. serveTurn exampleLibrary exampleInfo exampleExecutor ((), []) (notifyLine @ [LF])
              = Continue [] [] b'
          \<and> Serve exampleLibrary exampleInfo exampleExecutor ((), []) (notifyLine @ [LF])
              = Serve exampleLibrary exampleInfo exampleExecutor b' [])"
proof -
  have r: "readMessage (notifyLine @ [LF]) = (Inr notifyLine, [])" by code_simp
  have u: "UnmarshalRequest exampleLibrary notifyLine
             = Inr \<lparr>jsonRPCRequest.JSONRPC = ''2.0'', jsonRPCRequest.ID = [], Method = ''nope'',
                    Params = []\<rparr>"
    by (simp add: exampleLibrary_def)
  have i: "jsonRPCRequest.ID \<lparr>jsonRPCRequest.JSONRPC = ''2.0'', jsonRPCRequest.ID = [],
             Method = ''nope'', Params = []\<rparr> = []"
    by simp
  from idless_request_writes_nothing[OF r u i, of exampleInfo exampleExecutor "((), [])"] r u
  show ?thesis by simp
qed

text \<open>
  C5. Whenever a turn of the serve loop writes bytes, they are the frame of a response
  to a request that had an identifier, and that response has exactly one of a result
  and an error: as a struct (a non-nil \<open>Result\<close> or a non-nil \<open>Error\<close>, not both) and as
  the object handed to the encoder (a member \<open>result\<close> or a member \<open>error\<close>, not both).
  This covers every branch of the dispatch, the request being arbitrary.
\<close>

theorem emitted_response_has_one_of_result_and_error:
  assumes "serveTurn lib info ex b inp = Continue out rest b'" and "out \<noteq> []"
  shows "\<exists>payload req resp.
           readMessage inp = (Inr payload, rest) \<and> UnmarshalRequest lib payload = Inr req
           \<and> jsonRPCRequest.ID req \<noteq> []
           \<and> handleRequest lib info ex req b = (Some resp, b')
           \<and> writeMessage lib resp = Inr out
           \<and> (Result resp \<noteq> JNull) \<noteq> (Error resp \<noteq> None)
           \<and> hasMember (responseObject resp) ''result'' \<noteq> hasMember (responseObject resp) ''error''"
proof -
  from assms obtain payload req resp where
    rm: "readMessage inp = (Inr payload, rest)" and um: "UnmarshalRequest lib payload = Inr req"
    and hr: "handleRequest lib info ex req b = (Some resp, b')" and wm: "writeMessage lib resp = Inr out"
    by (auto simp: serveTurn_def split: prod.splits sum.splits option.splits if_splits)
  from handleRequest_Some[OF hr] rm um hr wm show ?thesis
    by (auto simp: responseObject_members)
qed

theorem emitted_response_has_one_of_result_and_error_witness:
  "serveTurn exampleLibrary exampleInfo exampleExecutor ((), []) (pingLine @ [LF])
     = Continue pingFrame [] ((), [])
   \<and> pingFrame \<noteq> []
   \<and> (\<exists>payload req resp.
         readMessage (pingLine @ [LF]) = (Inr payload, [])
         \<and> UnmarshalRequest exampleLibrary payload = Inr req
         \<and> jsonRPCRequest.ID req \<noteq> []
         \<and> handleRequest exampleLibrary exampleInfo exampleExecutor req ((), []) = (Some resp, ((), []))
         \<and> writeMessage exampleLibrary resp = Inr pingFrame
         \<and> (Result resp \<noteq> JNull) \<noteq> (Error resp \<noteq> None)
         \<and> hasMember (responseObject resp) ''result'' \<noteq> hasMember (responseObject resp) ''error'')"
proof -
  have t: "serveTurn exampleLibrary exampleInfo exampleExecutor ((), []) (pingLine @ [LF])
             = Continue pingFrame [] ((), [])"
    by code_simp
  have n: "pingFrame \<noteq> []" by (simp add: pingFrame_def)
  from emitted_response_has_one_of_result_and_error[OF t n] t n show ?thesis by blast
qed

text \<open>
  C8. When the decoded name of a \<open>tools/call\<close> is none of the seven registered names,
  \<open>handleToolCall\<close> returns the nil result and the RPC error with code -32602 whose data
  is that name, and the backend is as it was: no call of the Remote Operation Executor
  has been made.
\<close>

theorem unknown_tool_is_invalid_params:
  assumes "UnmarshalParams lib raw = Inr params" and "Name params \<notin> set registeredTools"
  shows "handleToolCall lib ex raw b =
           ((JNull, Some \<lparr>Code = - 32602, Message = ''unknown tool'', Data = JString (Name params)\<rparr>), b)"
  using assms by (simp add: handleToolCall_def selectTool_def registeredTools_def)

theorem unknown_tool_is_invalid_params_witness:
  "UnmarshalParams exampleLibrary unknownToolParams = Inr \<lparr>Name = ''nope.tool'', Arguments = []\<rparr>
   \<and> ''nope.tool'' \<notin> set registeredTools
   \<and> handleToolCall exampleLibrary exampleExecutor unknownToolParams ((), [])
       = ((JNull, Some \<lparr>Code = - 32602, Message = ''unknown tool'', Data = JString ''nope.tool''\<rparr>),
          ((), []))"
proof -
  have u: "UnmarshalParams exampleLibrary unknownToolParams
             = Inr \<lparr>Name = ''nope.tool'', Arguments = []\<rparr>"
    by (simp add: exampleLibrary_def)
  have n: "Name \<lparr>Name = ''nope.tool'', Arguments = []\<rparr> \<notin> set registeredTools"
    by (simp add: registeredTools_def)
  from unknown_tool_is_invalid_params[OF u n, of exampleExecutor "((), [])"] u n
  show ?thesis by simp
qed

text \<open>
  C2. When a \<open>tools/call\<close> names a registered tool and lacks a required argument
  (\<open>akuma.query\<close> without \<open>prompt\<close> or without \<open>dialect\<close>, \<open>akuma.explain\<close> without \<open>sql\<close>,
  \<open>akuma.schema\<close> without \<open>tables\<close>, \<open>sozo.generate\<close> without \<open>records\<close> or without both
  \<open>schema\<close> and \<open>schemaName\<close>), \<open>handleToolCall\<close> returns no RPC error and a result that
  is not nil, whose \<open>isError\<close> is true and whose content is one text item with a message
  that is not empty; the backend is as it was.
\<close>

theorem missing_argument_is_tool_failure:
  assumes "UnmarshalParams lib raw = Inr params" and "missingRequired params"
  shows "\<exists>msg. msg \<noteq> [] \<and> handleToolCall lib ex raw b = ((toolFailure msg, None), b)
           \<and> toolFailure msg \<noteq> JNull
           \<and> map_of (members (toolFailure msg)) ''isError'' = Some (JBool True)
           \<and> map_of (members (toolFailure msg)) ''content''
               = Some (JArray [JObject [(''type'', JString ''text''), (''text'', JString msg)]])"
proof -
  have tf: "\<And>msg. map_of (members (toolFailure msg)) ''isError'' = Some (JBool True)
           \<and> map_of (members (toolFailure msg)) ''content''
               = Some (JArray [JObject [(''type'', JString ''text''), (''text'', JString msg)]])"
    by (simp add: toolFailure_def)
  from missingRequired_selectTool[OF assms(2)] obtain msg where
    m: "msg \<noteq> []" and s: "selectTool ex params b = Some (Inl msg, b)" by blast
  from assms(1) s have "handleToolCall lib ex raw b = ((toolFailure msg, None), b)"
    by (simp add: handleToolCall_def)
  with m tf toolFailure_not_null show ?thesis by blast
qed

theorem missing_argument_is_tool_failure_witness:
  "UnmarshalParams exampleLibrary queryParams
     = Inr \<lparr>Name = ''akuma.query'', Arguments = [(''dialect'', JString ''postgres'')]\<rparr>
   \<and> missingRequired \<lparr>Name = ''akuma.query'', Arguments = [(''dialect'', JString ''postgres'')]\<rparr>
   \<and> (\<exists>msg. msg \<noteq> []
         \<and> handleToolCall exampleLibrary exampleExecutor queryParams ((), [])
             = ((toolFailure msg, None), ((), []))
         \<and> toolFailure msg \<noteq> JNull
         \<and> map_of (members (toolFailure msg)) ''isError'' = Some (JBool True)
         \<and> map_of (members (toolFailure msg)) ''content''
             = Some (JArray [JObject [(''type'', JString ''text''), (''text'', JString msg)]]))"
proof -
  have u: "UnmarshalParams exampleLibrary queryParams
             = Inr \<lparr>Name = ''akuma.query'', Arguments = [(''dialect'', JString ''postgres'')]\<rparr>"
    by (simp add: exampleLibrary_def queryParams_def unknownToolParams_def)
  have m: "missingRequired \<lparr>Name = ''akuma.query'', Arguments = [(''dialect'', JString ''postgres'')]\<rparr>"
    by (simp add: missingRequired_def)
  from missing_argument_is_tool_failure[OF u m, of exampleExecutor "((), [])"] u m
  show ?thesis by blast
qed







end
